theory Spec2Isabelle
  imports Complex_Main "HOL-Library.Sublist"
begin

section \<open>Python values shared by the parser and the exporter\<close>

text \<open>
  Exceptions are values. Only the exception classes that the modelled code can meet are
  listed; all of them are subclasses of Python's \<open>Exception\<close>.
\<close>

datatype pyerror = ValueError | TypeError | IndexError

text \<open>
  A \<open>datetime\<close> object, as microseconds since the epoch. Python keeps naive and
  timezone-aware datetimes apart and refuses to order one against the other.
\<close>

datatype datetime = Naive int | Aware int

text \<open>
  The value stored under the key \<open>timestamp\<close>: the parser stores a \<open>datetime\<close>
  object, \<open>DatabaseHandler.export_to_dict\<close> stores its ISO string.
\<close>

datatype ts_value = Datetime datetime | Str string

text \<open>The values handed to \<open>json.dumps\<close> by the parser.\<close>

datatype json = JInt int | JStr string | JList "json list" | JDict "(string \<times> json) list"

text \<open>
  A packet dictionary (\<open>Dict[str, Any]\<close>). Every key that the code reads with
  \<open>.get\<close> is an option: \<open>None\<close> is what \<open>.get(key)\<close> answers when the key is
  missing or holds Python's \<open>None\<close>. Where the code reads a key with a default
  (\<open>packet_size\<close>, \<open>timestamp\<close>, and \<open>protocol\<close> in the statistics), \<open>None\<close> stands
  for a missing key: the parser always sets the three, and the first two are columns that are
  not nullable. The field \<open>packet_data\<close> holds the dictionary that the parser serialises
  with \<open>json.dumps\<close>.
\<close>

record packet_dict =
  timestamp :: "ts_value option"
  packet_size :: "int option"
  file_name :: string
  packet_data :: "json option"
  source_ip :: "string option"
  destination_ip :: "string option"
  protocol :: "string option"
  source_port :: "int option"
  destination_port :: "int option"

section \<open>pcap\_parser.py\<close>

subsection \<open>The decoded frame (a Scapy packet)\<close>

text \<open>
  The layers of a decoded frame with the fields the parser reads. \<open>tcp_flags\<close> is the
  string form \<open>str(tcp_layer.flags)\<close>. Any layer class other than the five named ones is
  \<open>Layer\<close> with its display name.
\<close>

datatype layer =
    IP (src: string) (dst: string)
  | IPv6 (src: string) (dst: string)
  | TCP (sport: int) (dport: int) (tcp_flags: string) (tcp_seq: int) (tcp_ack: int)
        (tcp_window: int)
  | UDP (sport: int) (dport: int) (udp_len: int) (udp_chksum: int)
  | ICMP (icmp_type: int) (icmp_code: int)
  | Layer (layer_label: string)

text \<open>
  \<open>pkt_time\<close> is \<open>packet.time\<close> in microseconds, \<open>pkt_len\<close> is \<open>len(packet)\<close>,
  \<open>pkt_summary\<close> is \<open>packet.summary()\<close>, \<open>pkt_layers\<close> is the layer stack, outermost
  first.
\<close>

record packet =
  pkt_time :: int
  pkt_len :: nat
  pkt_summary :: string
  pkt_layers :: "layer list"

text \<open>\<open>layer.name\<close> for a layer of \<open>packet.layers()\<close>.\<close>

fun layer_name :: "layer \<Rightarrow> string" where
  "layer_name (IP s d) = ''IP''"
| "layer_name (IPv6 s d) = ''IPv6''"
| "layer_name (TCP sp dp f sq ak w) = ''TCP''"
| "layer_name (UDP sp dp l c) = ''UDP''"
| "layer_name (ICMP t c) = ''ICMP''"
| "layer_name (Layer n) = n"

text \<open>\<open>packet.haslayer(cls)\<close>, with the layer class given by its discriminator.\<close>

definition haslayer :: "(layer \<Rightarrow> bool) \<Rightarrow> packet \<Rightarrow> bool" where
  "haslayer cls p = list_ex cls (pkt_layers p)"

text \<open>\<open>packet[cls]\<close>: the first layer of the class; \<open>IndexError\<close> when there is none.\<close>

definition getlayer :: "(layer \<Rightarrow> bool) \<Rightarrow> packet \<Rightarrow> pyerror + layer" where
  "getlayer cls p = (case find cls (pkt_layers p) of None \<Rightarrow> Inl IndexError | Some l \<Rightarrow> Inr l)"

text \<open>
  \<open>datetime.fromtimestamp\<close>: a naive datetime, defined for the years 1 to 9999 only; outside
  that range Python raises (\<open>ValueError\<close>, or \<open>OverflowError\<close>/\<open>OSError\<close> on some
  platforms, all of them caught by \<open>except Exception\<close>).
\<close>

definition MIN_TIMESTAMP :: int where
  "MIN_TIMESTAMP = - 62135596800000000"

definition MAX_TIMESTAMP :: int where
  "MAX_TIMESTAMP = 253402300799999999"

definition fromtimestamp :: "int \<Rightarrow> pyerror + datetime" where
  "fromtimestamp t =
     (if MIN_TIMESTAMP \<le> t \<and> t \<le> MAX_TIMESTAMP then Inr (Naive t) else Inl ValueError)"

text \<open>Sequencing of steps that may raise.\<close>

definition bind_e :: "pyerror + 'a \<Rightarrow> ('a \<Rightarrow> pyerror + 'b) \<Rightarrow> pyerror + 'b" where
  "bind_e m f = (case m of Inl e \<Rightarrow> Inl e | Inr x \<Rightarrow> f x)"

subsection \<open>\_extract\_packet\_info\<close>

text \<open>The body of the \<open>try\<close> block of \<open>PCAPParser._extract_packet_info\<close>.\<close>

definition extract_body :: "packet \<Rightarrow> string \<Rightarrow> pyerror + packet_dict" where
  "extract_body pkt fname =
     bind_e (fromtimestamp (pkt_time pkt)) (\<lambda>ts.
       let d0 = \<lparr>timestamp = Some (Datetime ts),
                 packet_size = Some (int (pkt_len pkt)),
                 file_name = fname,
                 packet_data = None,
                 source_ip = None, destination_ip = None, protocol = None,
                 source_port = None, destination_port = None\<rparr>
       in
       if haslayer is_IP pkt then
         bind_e (getlayer is_IP pkt) (\<lambda>ip_layer.
           let d1 = d0\<lparr>source_ip := Some (src ip_layer),
                       destination_ip := Some (dst ip_layer),
                       protocol := Some ''IP''\<rparr>
           in
           if haslayer is_TCP pkt then
             bind_e (getlayer is_TCP pkt) (\<lambda>tcp_layer.
               Inr (d1\<lparr>source_port := Some (sport tcp_layer),
                        destination_port := Some (dport tcp_layer),
                        protocol := Some ''TCP'',
                        packet_data := Some (JDict
                          [(''tcp_flags'', JStr (tcp_flags tcp_layer)),
                           (''tcp_seq'', JInt (tcp_seq tcp_layer)),
                           (''tcp_ack'', JInt (tcp_ack tcp_layer)),
                           (''tcp_window'', JInt (tcp_window tcp_layer))])\<rparr>))
           else if haslayer is_UDP pkt then
             bind_e (getlayer is_UDP pkt) (\<lambda>udp_layer.
               Inr (d1\<lparr>source_port := Some (sport udp_layer),
                        destination_port := Some (dport udp_layer),
                        protocol := Some ''UDP'',
                        packet_data := Some (JDict
                          [(''udp_length'', JInt (udp_len udp_layer)),
                           (''udp_checksum'', JInt (udp_chksum udp_layer))])\<rparr>))
           else if haslayer is_ICMP pkt then
             bind_e (getlayer is_ICMP pkt) (\<lambda>icmp_layer.
               Inr (d1\<lparr>protocol := Some ''ICMP'',
                        packet_data := Some (JDict
                          [(''icmp_type'', JInt (icmp_type icmp_layer)),
                           (''icmp_code'', JInt (icmp_code icmp_layer))])\<rparr>))
           else Inr d1)
       else if haslayer is_IPv6 pkt then
         bind_e (getlayer is_IPv6 pkt) (\<lambda>ipv6_layer.
           let d1 = d0\<lparr>source_ip := Some (src ipv6_layer),
                       destination_ip := Some (dst ipv6_layer),
                       protocol := Some ''IPv6''\<rparr>
           in
           if haslayer is_TCP pkt then
             bind_e (getlayer is_TCP pkt) (\<lambda>tcp_layer.
               Inr (d1\<lparr>source_port := Some (sport tcp_layer),
                        destination_port := Some (dport tcp_layer),
                        protocol := Some ''TCPv6''\<rparr>))
           else if haslayer is_UDP pkt then
             bind_e (getlayer is_UDP pkt) (\<lambda>udp_layer.
               Inr (d1\<lparr>source_port := Some (sport udp_layer),
                        destination_port := Some (dport udp_layer),
                        protocol := Some ''UDPv6''\<rparr>))
           else Inr d1)
       else
         Inr (d0\<lparr>protocol := Some ''Other'',
                  packet_data := Some (JDict
                    [(''packet_summary'', JStr (pkt_summary pkt)),
                     (''packet_layers'', JList (map (\<lambda>l. JStr (layer_name l)) (pkt_layers pkt)))])\<rparr>))"

text \<open>
  \<open>PCAPParser._extract_packet_info\<close>: the \<open>except Exception\<close> handler logs the error and
  returns \<open>None\<close>.
\<close>

definition extract_packet_info :: "packet \<Rightarrow> string \<Rightarrow> packet_dict option" where
  "extract_packet_info pkt fname =
     (case extract_body pkt fname of Inl e \<Rightarrow> None | Inr d \<Rightarrow> Some d)"

subsection \<open>parse\_pcap\_file\<close>






section \<open>json\_exporter.py\<close>

subsection \<open>\_apply\_filters\<close>

text \<open>
  The filter criteria (\<open>Dict[str, Any]\<close>). \<open>None\<close> is a key that is missing or holds
  Python's \<open>None\<close>: the test \<open>'k' in filters and filters['k']\<close> is false for both.
\<close>

record filters =
  flt_protocol :: "string option"
  flt_ip_address :: "string option"
  flt_port :: "int option"
  flt_min_size :: "int option"
  flt_max_size :: "int option"
  flt_start_time :: "string option"
  flt_end_time :: "string option"

text \<open>The empty dictionary \<open>{}\<close> of criteria.\<close>

definition no_filters :: filters where
  "no_filters = \<lparr>flt_protocol = None, flt_ip_address = None, flt_port = None,
                  flt_min_size = None, flt_max_size = None,
                  flt_start_time = None, flt_end_time = None\<rparr>"

text \<open>\<open>p.get('packet_size', 0)\<close>.\<close>

definition get_packet_size :: "packet_dict \<Rightarrow> int" where
  "get_packet_size p = (case packet_size p of None \<Rightarrow> 0 | Some n \<Rightarrow> n)"

text \<open>
  \<open>datetime.fromisoformat(p.get('timestamp', ''))\<close>, with Python's \<open>fromisoformat\<close> as
  the parameter \<open>fromisoformat\<close>. It accepts strings only.
\<close>

definition get_timestamp :: "(string \<Rightarrow> pyerror + datetime) \<Rightarrow> packet_dict \<Rightarrow> pyerror + datetime" where
  "get_timestamp fromisoformat p =
     (case timestamp p of
        None \<Rightarrow> fromisoformat []
      | Some (Str s) \<Rightarrow> fromisoformat s
      | Some (Datetime d) \<Rightarrow> Inl TypeError)"

text \<open>\<open>a >= b\<close> and \<open>a <= b\<close> on datetimes: \<open>TypeError\<close> between a naive and an aware one.\<close>

fun dt_ge :: "datetime \<Rightarrow> datetime \<Rightarrow> pyerror + bool" where
  "dt_ge (Naive a) (Naive b) = Inr (a \<ge> b)"
| "dt_ge (Aware a) (Aware b) = Inr (a \<ge> b)"
| "dt_ge (Naive a) (Aware b) = Inl TypeError"
| "dt_ge (Aware a) (Naive b) = Inl TypeError"

fun dt_le :: "datetime \<Rightarrow> datetime \<Rightarrow> pyerror + bool" where
  "dt_le (Naive a) (Naive b) = Inr (a \<le> b)"
| "dt_le (Aware a) (Aware b) = Inr (a \<le> b)"
| "dt_le (Naive a) (Aware b) = Inl TypeError"
| "dt_le (Aware a) (Naive b) = Inl TypeError"

text \<open>
  A list comprehension \<open>[p for p in ps if cond(p)]\<close> whose condition may raise: the
  elements are tested from left to right and the first exception ends the comprehension.
\<close>

fun filter_e :: "('a \<Rightarrow> pyerror + bool) \<Rightarrow> 'a list \<Rightarrow> pyerror + 'a list" where
  "filter_e cond [] = Inr []"
| "filter_e cond (p # ps) =
     bind_e (cond p) (\<lambda>b.
       bind_e (filter_e cond ps) (\<lambda>rest. Inr (if b then p # rest else rest)))"

text \<open>
  The seven \<open>if\<close> blocks of \<open>_apply_filters\<close>, in the order of the source. Each takes
  the value \<open>v\<close> stored under its key of \<open>filters\<close>, applies its test when \<open>v\<close> is present
  and truthy (a non-empty string, a non-zero number), and passes the list on otherwise.
\<close>

definition by_protocol :: "string option \<Rightarrow> packet_dict list \<Rightarrow> packet_dict list" where
  "by_protocol v filtered_packets =
     (case v of
        None \<Rightarrow> filtered_packets
      | Some label \<Rightarrow>
          if label \<noteq> [] then filter (\<lambda>p. protocol p = Some label) filtered_packets
          else filtered_packets)"

definition by_ip_address :: "string option \<Rightarrow> packet_dict list \<Rightarrow> packet_dict list" where
  "by_ip_address v filtered_packets =
     (case v of
        None \<Rightarrow> filtered_packets
      | Some ip \<Rightarrow>
          if ip \<noteq> [] then
            filter (\<lambda>p. source_ip p = Some ip \<or> destination_ip p = Some ip) filtered_packets
          else filtered_packets)"

definition by_port :: "int option \<Rightarrow> packet_dict list \<Rightarrow> packet_dict list" where
  "by_port v filtered_packets =
     (case v of
        None \<Rightarrow> filtered_packets
      | Some port \<Rightarrow>
          if port \<noteq> 0 then
            filter (\<lambda>p. source_port p = Some port \<or> destination_port p = Some port)
              filtered_packets
          else filtered_packets)"

definition by_min_size :: "int option \<Rightarrow> packet_dict list \<Rightarrow> packet_dict list" where
  "by_min_size v filtered_packets =
     (case v of
        None \<Rightarrow> filtered_packets
      | Some m \<Rightarrow>
          if m \<noteq> 0 then filter (\<lambda>p. get_packet_size p \<ge> m) filtered_packets
          else filtered_packets)"

definition by_max_size :: "int option \<Rightarrow> packet_dict list \<Rightarrow> packet_dict list" where
  "by_max_size v filtered_packets =
     (case v of
        None \<Rightarrow> filtered_packets
      | Some m \<Rightarrow>
          if m \<noteq> 0 then filter (\<lambda>p. get_packet_size p \<le> m) filtered_packets
          else filtered_packets)"

definition by_start_time ::
  "(string \<Rightarrow> pyerror + datetime) \<Rightarrow> string option \<Rightarrow> packet_dict list \<Rightarrow> pyerror + packet_dict list" where
  "by_start_time fromisoformat v filtered_packets =
     (case v of
        None \<Rightarrow> Inr filtered_packets
      | Some s \<Rightarrow>
          if s \<noteq> [] then
            bind_e (fromisoformat s) (\<lambda>start_time.
              filter_e (\<lambda>p. bind_e (get_timestamp fromisoformat p) (\<lambda>t. dt_ge t start_time))
                filtered_packets)
          else Inr filtered_packets)"

definition by_end_time ::
  "(string \<Rightarrow> pyerror + datetime) \<Rightarrow> string option \<Rightarrow> packet_dict list \<Rightarrow> pyerror + packet_dict list" where
  "by_end_time fromisoformat v filtered_packets =
     (case v of
        None \<Rightarrow> Inr filtered_packets
      | Some s \<Rightarrow>
          if s \<noteq> [] then
            bind_e (fromisoformat s) (\<lambda>end_time.
              filter_e (\<lambda>p. bind_e (get_timestamp fromisoformat p) (\<lambda>t. dt_le t end_time))
                filtered_packets)
          else Inr filtered_packets)"

text \<open>
  \<open>JSONExporter._apply_filters\<close>. An exception raised by a time filter leaves the function;
  the caller \<open>export_filtered_packets\<close> catches it.
\<close>

definition apply_filters ::
  "(string \<Rightarrow> pyerror + datetime) \<Rightarrow> packet_dict list \<Rightarrow> filters \<Rightarrow> pyerror + packet_dict list" where
  "apply_filters fromisoformat packets_data fs =
     bind_e
       (by_start_time fromisoformat (flt_start_time fs)
          (by_max_size (flt_max_size fs) (by_min_size (flt_min_size fs) (by_port (flt_port fs) (by_ip_address (flt_ip_address fs)
             (by_protocol (flt_protocol fs) packets_data))))))
       (by_end_time fromisoformat (flt_end_time fs))"

subsection \<open>\_calculate\_statistics\<close>

text \<open>
  A counting dictionary, as the list of its items in insertion order.
  \<open>count_key k d\<close> is the statement \<open>d[k] = d.get(k, 0) + 1\<close>.
\<close>

fun count_key :: "'k \<Rightarrow> ('k \<times> nat) list \<Rightarrow> ('k \<times> nat) list" where
  "count_key k [] = [(k, 1)]"
| "count_key k ((k', c) # d) =
     (if k = k' then (k', c + 1) # d else (k', c) # count_key k d)"

text \<open>The guarded updates \<open>if packet.get(key): d[packet[key]] = ...\<close> for strings and numbers.\<close>

definition count_str :: "string option \<Rightarrow> (string \<times> nat) list \<Rightarrow> (string \<times> nat) list" where
  "count_str v d = (case v of None \<Rightarrow> d | Some s \<Rightarrow> if s \<noteq> [] then count_key s d else d)"

definition count_int :: "int option \<Rightarrow> (int \<times> nat) list \<Rightarrow> (int \<times> nat) list" where
  "count_int v d = (case v of None \<Rightarrow> d | Some n \<Rightarrow> if n \<noteq> 0 then count_key n d else d)"

text \<open>\<open>packet.get('protocol', 'Unknown')\<close>.\<close>

definition get_protocol :: "packet_dict \<Rightarrow> string" where
  "get_protocol p = (case protocol p of None \<Rightarrow> ''Unknown'' | Some l \<Rightarrow> l)"

text \<open>
  \<open>dict(sorted(d.items(), key=lambda x: x[1], reverse=True)[:10])\<close>: a stable sort by
  falling count, cut to ten items.
\<close>

definition top10 :: "('k \<times> nat) list \<Rightarrow> ('k \<times> nat) list" where
  "top10 d = take 10 (sort_key (\<lambda>x. - int (snd x)) d)"

text \<open>
  The value under \<open>packet_size_stats\<close>. \<open>average\<close> is Python's true division, taken here
  as the exact quotient.
\<close>

record size_stats =
  st_min :: int
  st_max :: int
  st_average :: rat
  st_total_bytes :: int

record statistics =
  total_packets :: nat
  protocol_distribution :: "(string \<times> nat) list"
  top_source_ips :: "(string \<times> nat) list"
  top_destination_ips :: "(string \<times> nat) list"
  top_source_ports :: "(int \<times> nat) list"
  top_destination_ports :: "(int \<times> nat) list"
  packet_size_stats :: size_stats

text \<open>
  \<open>JSONExporter._calculate_statistics\<close>. The answer \<open>None\<close> is the empty dictionary
  \<open>{}\<close> that the guard \<open>if not packets_data\<close> returns; \<open>Some s\<close> is the dictionary with
  the seven keys.
\<close>

definition calculate_statistics :: "packet_dict list \<Rightarrow> statistics option" where
  "calculate_statistics packets_data =
     (if packets_data = [] then None
      else
        let protocols = foldl (\<lambda>d packet. count_key (get_protocol packet) d) [] packets_data;
            source_ips = foldl (\<lambda>d packet. count_str (source_ip packet) d) [] packets_data;
            dest_ips = foldl (\<lambda>d packet. count_str (destination_ip packet) d) [] packets_data;
            source_ports = foldl (\<lambda>d packet. count_int (source_port packet) d) [] packets_data;
            dest_ports = foldl (\<lambda>d packet. count_int (destination_port packet) d) [] packets_data;
            packet_sizes = map get_packet_size packets_data
        in Some \<lparr>total_packets = length packets_data,
                 protocol_distribution = protocols,
                 top_source_ips = top10 source_ips,
                 top_destination_ips = top10 dest_ips,
                 top_source_ports = top10 source_ports,
                 top_destination_ports = top10 dest_ports,
                 packet_size_stats =
                   \<lparr>st_min = (case packet_sizes of [] \<Rightarrow> 0 | x # xs \<Rightarrow> fold min xs x),
                    st_max = (case packet_sizes of [] \<Rightarrow> 0 | x # xs \<Rightarrow> fold max xs x),
                    st_average =
                      (if packet_sizes \<noteq> [] then
                         of_int (sum_list packet_sizes) / of_nat (length packet_sizes)
                       else 0),
                    st_total_bytes = sum_list packet_sizes\<rparr>\<rparr>)"

section \<open>Properties of the record and of the report\<close>

text \<open>The fixed set of protocol labels.\<close>

definition protocol_labels :: "string list" where
  "protocol_labels =
     [''IP'', ''TCP'', ''UDP'', ''ICMP'', ''IPv6'', ''TCPv6'', ''UDPv6'', ''Other'']"

text \<open>
  The invariant of a normalized record: one label of the fixed set, the two addresses
  present together or absent together, the two ports likewise, and a size that is present and
  not negative.
\<close>

definition record_invariant :: "packet_dict \<Rightarrow> bool" where
  "record_invariant r =
     ((case protocol r of None \<Rightarrow> False | Some l \<Rightarrow> l \<in> set protocol_labels) \<and>
      ((source_ip r = None) = (destination_ip r = None)) \<and>
      ((source_port r = None) = (destination_port r = None)) \<and>
      (case packet_size r of None \<Rightarrow> False | Some n \<Rightarrow> 0 \<le> n))"

section \<open>Sample frames and records\<close>

text \<open>
  Three decoded frames (IPv4 with TCP, 80 bytes; IPv4 with UDP, 60 bytes; ARP with no
  network layer, 40 bytes), a frame stamped far after the year 9999, and the dictionaries
  the parser builds for the first three when they come from a file named \<open>a.pcap\<close>.
\<close>

definition frame_tcp :: packet where
  "frame_tcp = \<lparr>pkt_time = 1700000000000000, pkt_len = 80,
                 pkt_summary = ''Ether / IP / TCP 10.0.0.1:1234 > 10.0.0.2:http S'',
                 pkt_layers = [Layer ''Ethernet'', IP ''10.0.0.1'' ''10.0.0.2'',
                               TCP 1234 80 ''S'' 1000 0 8192]\<rparr>"

definition frame_udp :: packet where
  "frame_udp = \<lparr>pkt_time = 1700000001000000, pkt_len = 60,
                 pkt_summary = ''Ether / IP / UDP 10.0.0.1:5353 > 10.0.0.3:domain'',
                 pkt_layers = [Layer ''Ethernet'', IP ''10.0.0.1'' ''10.0.0.3'',
                               UDP 5353 53 26 4660]\<rparr>"

definition frame_arp :: packet where
  "frame_arp = \<lparr>pkt_time = 1700000002000000, pkt_len = 40,
                 pkt_summary = ''Ether / ARP who has 10.0.0.2 says 10.0.0.1'',
                 pkt_layers = [Layer ''Ethernet'', Layer ''ARP'']\<rparr>"

definition frame_late :: packet where
  "frame_late = \<lparr>pkt_time = 1000000000000000000, pkt_len = 80,
                  pkt_summary = ''Ether / IP / TCP 10.0.0.1:1234 > 10.0.0.2:http S'',
                  pkt_layers = [Layer ''Ethernet'', IP ''10.0.0.1'' ''10.0.0.2'',
                                TCP 1234 80 ''S'' 1000 0 8192]\<rparr>"

definition record_tcp :: packet_dict where
  "record_tcp = \<lparr>timestamp = Some (Datetime (Naive 1700000000000000)),
                  packet_size = Some 80, file_name = ''a.pcap'',
                  packet_data = Some (JDict [(''tcp_flags'', JStr ''S''),
                                             (''tcp_seq'', JInt 1000),
                                             (''tcp_ack'', JInt 0),
                                             (''tcp_window'', JInt 8192)]),
                  source_ip = Some ''10.0.0.1'', destination_ip = Some ''10.0.0.2'',
                  protocol = Some ''TCP'',
                  source_port = Some 1234, destination_port = Some 80\<rparr>"

definition record_udp :: packet_dict where
  "record_udp = \<lparr>timestamp = Some (Datetime (Naive 1700000001000000)),
                  packet_size = Some 60, file_name = ''a.pcap'',
                  packet_data = Some (JDict [(''udp_length'', JInt 26),
                                             (''udp_checksum'', JInt 4660)]),
                  source_ip = Some ''10.0.0.1'', destination_ip = Some ''10.0.0.3'',
                  protocol = Some ''UDP'',
                  source_port = Some 5353, destination_port = Some 53\<rparr>"

definition record_arp :: packet_dict where
  "record_arp = \<lparr>timestamp = Some (Datetime (Naive 1700000002000000)),
                  packet_size = Some 40, file_name = ''a.pcap'',
                  packet_data = Some (JDict
                    [(''packet_summary'', JStr ''Ether / ARP who has 10.0.0.2 says 10.0.0.1''),
                     (''packet_layers'', JList [JStr ''Ethernet'', JStr ''ARP''])]),
                  source_ip = None, destination_ip = None,
                  protocol = Some ''Other'',
                  source_port = None, destination_port = None\<rparr>"

text \<open>A stand-in for \<open>datetime.fromisoformat\<close> that knows two strings and rejects the rest.\<close>

definition iso_sample :: "string \<Rightarrow> pyerror + datetime" where
  "iso_sample s =
     (if s = ''2023-11-14T22:13:20'' then Inr (Naive 1700000000000000)
      else if s = ''2023-11-14T22:13:21'' then Inr (Naive 1700000001000000)
      else Inl ValueError)"

text \<open>The same three records as \<open>export_to_dict\<close> hands them to the exporter.\<close>

definition exported :: "packet_dict list" where
  "exported = [record_tcp\<lparr>timestamp := Some (Str ''2023-11-14T22:13:20'')\<rparr>,
               record_udp\<lparr>timestamp := Some (Str ''2023-11-14T22:13:21'')\<rparr>,
               record_arp\<lparr>timestamp := Some (Str ''2023-11-14T22:13:21'')\<rparr>]"

section \<open>Auxiliary facts\<close>

lemma bind_e_simps [simp]:
  "bind_e (Inl e) f = Inl e"
  "bind_e (Inr x) f = f x"
  by (simp_all add: bind_e_def)

lemma bind_e_Inr_iff: "bind_e m f = Inr y \<longleftrightarrow> (\<exists>x. m = Inr x \<and> f x = Inr y)"
  by (cases m) simp_all






lemma filter_e_Inr:
  "filter_e c xs = Inr ys \<Longrightarrow>
     ys = filter (\<lambda>x. c x = Inr True) xs \<and> (\<forall>x\<in>set xs. \<exists>b. c x = Inr b)"
  by (induction xs arbitrary: ys) (auto simp: bind_e_Inr_iff)

lemma filter_e_all_pass: "\<forall>x\<in>set zs. c x = Inr True \<Longrightarrow> filter_e c zs = Inr zs"
  by (induction zs) auto

lemma filter_e_stable:
  assumes "filter_e c xs = Inr ys" and "set zs \<subseteq> set ys"
  shows "filter_e c zs = Inr zs"
proof -
  from assms(1) have "ys = filter (\<lambda>x. c x = Inr True) xs" by (simp add: filter_e_Inr)
  with assms(2) have "\<forall>x\<in>set zs. c x = Inr True" by auto
  then show ?thesis by (rule filter_e_all_pass)
qed

lemma subseq_filter_e: "filter_e c xs = Inr ys \<Longrightarrow> subseq ys xs"
  by (auto dest!: filter_e_Inr)

lemma subseq_set: "subseq xs ys \<Longrightarrow> set xs \<subseteq> set ys"
  by (auto dest: list_emb_set)

text \<open>Each block answers a subsequence of its input.\<close>

lemma subseq_by_protocol: "subseq (by_protocol v xs) xs"
  by (simp add: by_protocol_def split: option.splits)

lemma subseq_by_ip_address: "subseq (by_ip_address v xs) xs"
  by (simp add: by_ip_address_def split: option.splits)

lemma subseq_by_port: "subseq (by_port v xs) xs"
  by (simp add: by_port_def split: option.splits)

lemma subseq_by_min_size: "subseq (by_min_size v xs) xs"
  by (simp add: by_min_size_def split: option.splits)

lemma subseq_by_max_size: "subseq (by_max_size v xs) xs"
  by (simp add: by_max_size_def split: option.splits)

lemma subseq_by_start_time: "by_start_time f v xs = Inr ys \<Longrightarrow> subseq ys xs"
  by (auto simp: by_start_time_def bind_e_Inr_iff split: option.splits if_splits
      intro: subseq_filter_e)

lemma subseq_by_end_time: "by_end_time f v xs = Inr ys \<Longrightarrow> subseq ys xs"
  by (auto simp: by_end_time_def bind_e_Inr_iff split: option.splits if_splits
      intro: subseq_filter_e)

text \<open>Each block leaves alone a list made of elements it has already let through.\<close>

lemma by_protocol_stable: "set zs \<subseteq> set (by_protocol v xs) \<Longrightarrow> by_protocol v zs = zs"
  by (auto simp: by_protocol_def filter_id_conv split: option.splits if_splits)

lemma by_ip_address_stable: "set zs \<subseteq> set (by_ip_address v xs) \<Longrightarrow> by_ip_address v zs = zs"
  by (auto simp: by_ip_address_def filter_id_conv split: option.splits if_splits)

lemma by_port_stable: "set zs \<subseteq> set (by_port v xs) \<Longrightarrow> by_port v zs = zs"
  by (auto simp: by_port_def filter_id_conv split: option.splits if_splits)

lemma by_min_size_stable: "set zs \<subseteq> set (by_min_size v xs) \<Longrightarrow> by_min_size v zs = zs"
  by (auto simp: by_min_size_def filter_id_conv split: option.splits if_splits)

lemma by_max_size_stable: "set zs \<subseteq> set (by_max_size v xs) \<Longrightarrow> by_max_size v zs = zs"
  by (auto simp: by_max_size_def filter_id_conv split: option.splits if_splits)

lemma by_start_time_stable:
  "by_start_time f v xs = Inr ys \<Longrightarrow> set zs \<subseteq> set ys \<Longrightarrow> by_start_time f v zs = Inr zs"
  by (auto simp: by_start_time_def bind_e_Inr_iff split: option.splits if_splits
      intro: filter_e_stable)

lemma by_end_time_stable:
  "by_end_time f v xs = Inr ys \<Longrightarrow> set zs \<subseteq> set ys \<Longrightarrow> by_end_time f v zs = Inr zs"
  by (auto simp: by_end_time_def bind_e_Inr_iff split: option.splits if_splits
      intro: filter_e_stable)

text \<open>The whole function answers a subsequence of its input and is stable on its answer.\<close>

lemma subseq_first_five:
  "subseq (by_max_size v5 (by_min_size v4 (by_port v3 (by_ip_address v2 (by_protocol v1 xs))))) xs"
  by (meson subseq_by_protocol subseq_by_ip_address subseq_by_port subseq_by_min_size
      subseq_by_max_size subseq_order.order_trans)

lemma first_five_stable:
  assumes "set zs \<subseteq>
             set (by_max_size v5 (by_min_size v4 (by_port v3 (by_ip_address v2 (by_protocol v1 xs)))))"
  shows "by_max_size v5 (by_min_size v4 (by_port v3 (by_ip_address v2 (by_protocol v1 zs)))) = zs"
proof -
  let ?a = "by_protocol v1 xs"
  let ?b = "by_ip_address v2 ?a"
  let ?c = "by_port v3 ?b"
  let ?d = "by_min_size v4 ?c"
  let ?e = "by_max_size v5 ?d"
  have e: "set zs \<subseteq> set ?e" by (rule assms)
  have d: "set zs \<subseteq> set ?d" using e subseq_set [OF subseq_by_max_size] by blast
  have c: "set zs \<subseteq> set ?c" using d subseq_set [OF subseq_by_min_size] by blast
  have b: "set zs \<subseteq> set ?b" using c subseq_set [OF subseq_by_port] by blast
  have a: "set zs \<subseteq> set ?a" using b subseq_set [OF subseq_by_ip_address] by blast
  show ?thesis
    by (simp add: by_protocol_stable [OF a] by_ip_address_stable [OF b] by_port_stable [OF c]
        by_min_size_stable [OF d] by_max_size_stable [OF e])
qed

lemma apply_filters_cases:
  assumes "apply_filters f xs fs = Inr ys"
  obtains ms where
    "by_start_time f (flt_start_time fs)
       (by_max_size (flt_max_size fs) (by_min_size (flt_min_size fs) (by_port (flt_port fs)
          (by_ip_address (flt_ip_address fs) (by_protocol (flt_protocol fs) xs))))) = Inr ms"
    and "by_end_time f (flt_end_time fs) ms = Inr ys"
  using assms by (auto simp: apply_filters_def bind_e_Inr_iff)

lemma subseq_apply_filters:
  assumes "apply_filters f xs fs = Inr ys"
  shows "subseq ys xs"
proof -
  from assms obtain ms where
    m: "by_start_time f (flt_start_time fs)
          (by_max_size (flt_max_size fs) (by_min_size (flt_min_size fs) (by_port (flt_port fs)
             (by_ip_address (flt_ip_address fs) (by_protocol (flt_protocol fs) xs))))) = Inr ms"
    and e: "by_end_time f (flt_end_time fs) ms = Inr ys"
    by (rule apply_filters_cases)
  have "subseq ys ms" using e by (rule subseq_by_end_time)
  also have "subseq ms
      (by_max_size (flt_max_size fs) (by_min_size (flt_min_size fs) (by_port (flt_port fs)
         (by_ip_address (flt_ip_address fs) (by_protocol (flt_protocol fs) xs)))))"
    using m by (rule subseq_by_start_time)
  also note subseq_first_five
  finally show ?thesis .
qed

lemma apply_filters_fixpoint:
  assumes "apply_filters f xs fs = Inr ys"
  shows "apply_filters f ys fs = Inr ys"
proof -
  from assms obtain ms where
    m: "by_start_time f (flt_start_time fs)
          (by_max_size (flt_max_size fs) (by_min_size (flt_min_size fs) (by_port (flt_port fs)
             (by_ip_address (flt_ip_address fs) (by_protocol (flt_protocol fs) xs))))) = Inr ms"
    and e: "by_end_time f (flt_end_time fs) ms = Inr ys"
    by (rule apply_filters_cases)
  have ym: "set ys \<subseteq> set ms"
    using e by (intro subseq_set subseq_by_end_time)
  have mp: "set ms \<subseteq>
      set (by_max_size (flt_max_size fs) (by_min_size (flt_min_size fs) (by_port (flt_port fs)
         (by_ip_address (flt_ip_address fs) (by_protocol (flt_protocol fs) xs)))))"
    using m by (intro subseq_set subseq_by_start_time)
  have 1: "by_max_size (flt_max_size fs) (by_min_size (flt_min_size fs) (by_port (flt_port fs)
         (by_ip_address (flt_ip_address fs) (by_protocol (flt_protocol fs) ys)))) = ys"
    using ym mp by (intro first_five_stable) blast
  have 2: "by_start_time f (flt_start_time fs) ys = Inr ys"
    using m ym by (rule by_start_time_stable)
  have 3: "by_end_time f (flt_end_time fs) ys = Inr ys"
    using e by (rule by_end_time_stable) simp
  show ?thesis by (simp add: apply_filters_def 1 2 3)
qed

text \<open>Falsy values of a key behave as the missing key.\<close>

lemma falsy_values:
  "by_protocol (Some []) = by_protocol None"
  "by_port (Some 0) = by_port None"
  "by_min_size (Some 0) = by_min_size None"
  "by_max_size (Some 0) = by_max_size None"
  by (simp_all add: fun_eq_iff by_protocol_def by_port_def by_min_size_def by_max_size_def)

text \<open>The sample records through the filters and the statistics.\<close>

lemma exported_port_and_start:
  "apply_filters iso_sample exported
     (no_filters\<lparr>flt_port := Some 53, flt_start_time := Some ''2023-11-14T22:13:21''\<rparr>) =
   Inr [record_udp\<lparr>timestamp := Some (Str ''2023-11-14T22:13:21'')\<rparr>]"
  by (simp add: apply_filters_def by_protocol_def by_ip_address_def by_port_def by_min_size_def
      by_max_size_def by_start_time_def by_end_time_def no_filters_def exported_def
      record_tcp_def record_udp_def record_arp_def iso_sample_def get_timestamp_def)

lemma exported_tcp:
  "apply_filters iso_sample exported (no_filters\<lparr>flt_protocol := Some ''TCP''\<rparr>) =
   Inr [record_tcp\<lparr>timestamp := Some (Str ''2023-11-14T22:13:20'')\<rparr>]"
  by (simp add: apply_filters_def by_protocol_def by_ip_address_def by_port_def by_min_size_def
      by_max_size_def by_start_time_def by_end_time_def no_filters_def exported_def
      record_tcp_def record_udp_def record_arp_def)




lemma samples:
  "extract_packet_info frame_tcp ''a.pcap'' = Some record_tcp"
  "extract_packet_info frame_udp ''a.pcap'' = Some record_udp"
  "extract_packet_info frame_arp ''a.pcap'' = Some record_arp"
  "extract_packet_info frame_late ''a.pcap'' = None"
  by (simp_all add: extract_packet_info_def extract_body_def haslayer_def getlayer_def
      fromtimestamp_def MIN_TIMESTAMP_def MAX_TIMESTAMP_def frame_tcp_def frame_udp_def
      frame_arp_def frame_late_def record_tcp_def record_udp_def record_arp_def)


section \<open>The parser\<close>








text \<open>
  Claim C8. Every record that \<open>_extract_packet_info\<close> produces satisfies the record
  invariant: a label of the fixed set, both addresses or none, both ports or none, and a size
  that is present and not negative.
\<close>

theorem extracted_record_invariant:
  assumes "extract_packet_info pkt fname = Some r"
  shows "record_invariant r"
proof -
  from assms have b: "extract_body pkt fname = Inr r"
    by (auto simp: extract_packet_info_def split: sum.splits)
  then obtain ts where ts: "fromtimestamp (pkt_time pkt) = Inr ts"
    by (auto simp: extract_body_def bind_e_Inr_iff)
  show ?thesis
    using b ts
    by (auto simp: extract_body_def record_invariant_def protocol_labels_def Let_def
        bind_e_Inr_iff split: if_splits)
qed

theorem extracted_record_invariant_witness:
  "extract_packet_info frame_udp ''a.pcap'' = Some record_udp \<and> record_invariant record_udp"
  using extracted_record_invariant [of frame_udp "''a.pcap''" record_udp]
  by (simp add: samples)



section \<open>The exporter\<close>

text \<open>
  Claim C5. Filtering is idempotent: running \<open>_apply_filters\<close> on its own answer with the
  same criteria gives that answer again; when the first run raises, so does the sequence of
  the two, with the same exception.
\<close>

theorem apply_filters_idempotent:
  "bind_e (apply_filters fromisoformat R S) (\<lambda>R'. apply_filters fromisoformat R' S) =
     apply_filters fromisoformat R S"
  by (cases "apply_filters fromisoformat R S") (simp_all add: apply_filters_fixpoint)

theorem apply_filters_idempotent_witness:
  "apply_filters iso_sample exported
     (no_filters\<lparr>flt_port := Some 53, flt_start_time := Some ''2023-11-14T22:13:21''\<rparr>) =
     Inr [record_udp\<lparr>timestamp := Some (Str ''2023-11-14T22:13:21'')\<rparr>] \<and>
   apply_filters iso_sample [record_udp\<lparr>timestamp := Some (Str ''2023-11-14T22:13:21'')\<rparr>]
     (no_filters\<lparr>flt_port := Some 53, flt_start_time := Some ''2023-11-14T22:13:21''\<rparr>) =
     Inr [record_udp\<lparr>timestamp := Some (Str ''2023-11-14T22:13:21'')\<rparr>]"
  using apply_filters_idempotent [of iso_sample exported
      "no_filters\<lparr>flt_port := Some 53, flt_start_time := Some ''2023-11-14T22:13:21''\<rparr>"]
  by (simp add: exported_port_and_start)

text \<open>
  Claim C6. Whenever \<open>_apply_filters\<close> answers a list, the list is no longer than the input
  and is a subsequence of it, in the same relative order; with the empty criteria it answers
  the input unchanged.
\<close>

theorem apply_filters_subsequence:
  "(\<forall>R'. apply_filters fromisoformat R S = Inr R' \<longrightarrow> length R' \<le> length R \<and> subseq R' R)
   \<and> apply_filters fromisoformat R no_filters = Inr R"
proof -
  have "length R' \<le> length R \<and> subseq R' R" if "apply_filters fromisoformat R S = Inr R'" for R'
  proof -
    have s: "subseq R' R" using that by (rule subseq_apply_filters)
    then have "length R' \<le> length R" by (rule list_emb_length)
    with s show ?thesis by simp
  qed
  moreover have "apply_filters fromisoformat R no_filters = Inr R"
    by (simp add: apply_filters_def by_protocol_def by_ip_address_def by_port_def by_min_size_def
        by_max_size_def by_start_time_def by_end_time_def no_filters_def)
  ultimately show ?thesis by blast
qed

theorem apply_filters_subsequence_witness:
  "apply_filters iso_sample exported (no_filters\<lparr>flt_protocol := Some ''TCP''\<rparr>) =
     Inr [record_tcp\<lparr>timestamp := Some (Str ''2023-11-14T22:13:20'')\<rparr>] \<and>
   length [record_tcp\<lparr>timestamp := Some (Str ''2023-11-14T22:13:20'')\<rparr>] \<le> length exported \<and>
   subseq [record_tcp\<lparr>timestamp := Some (Str ''2023-11-14T22:13:20'')\<rparr>] exported \<and>
   apply_filters iso_sample exported no_filters = Inr exported"
  using apply_filters_subsequence [of iso_sample exported
      "no_filters\<lparr>flt_protocol := Some ''TCP''\<rparr>"] exported_tcp
  by simp

text \<open>
  Claim C10. A criterion that is present with a falsy value (the empty string for
  \<open>protocol\<close>, zero for \<open>port\<close>, \<open>min_size\<close> or \<open>max_size\<close>) imposes nothing:
  \<open>_apply_filters\<close> answers what it answers for the criteria without that key.
\<close>

theorem falsy_criterion_ignored:
  "apply_filters fromisoformat R (S\<lparr>flt_protocol := Some ''''\<rparr>) =
     apply_filters fromisoformat R (S\<lparr>flt_protocol := None\<rparr>) \<and>
   apply_filters fromisoformat R (S\<lparr>flt_port := Some 0\<rparr>) =
     apply_filters fromisoformat R (S\<lparr>flt_port := None\<rparr>) \<and>
   apply_filters fromisoformat R (S\<lparr>flt_min_size := Some 0\<rparr>) =
     apply_filters fromisoformat R (S\<lparr>flt_min_size := None\<rparr>) \<and>
   apply_filters fromisoformat R (S\<lparr>flt_max_size := Some 0\<rparr>) =
     apply_filters fromisoformat R (S\<lparr>flt_max_size := None\<rparr>)"
  by (simp add: apply_filters_def falsy_values)

theorem falsy_criterion_ignored_witness:
  "apply_filters iso_sample exported
     (no_filters\<lparr>flt_protocol := Some ''TCP'', flt_max_size := Some 0\<rparr>) =
     Inr [record_tcp\<lparr>timestamp := Some (Str ''2023-11-14T22:13:20'')\<rparr>]"
  using falsy_criterion_ignored [of iso_sample exported
      "no_filters\<lparr>flt_protocol := Some ''TCP''\<rparr>"] exported_tcp
  by (simp add: no_filters_def)

text \<open>
  Claim C2, as amended. For the empty list of records \<open>_calculate_statistics\<close> raises nothing
  and answers the empty dictionary: a report with no key at all, so with no packet count and
  no statistics field.
\<close>

theorem empty_input_empty_report: "calculate_statistics [] = None"
  by (simp add: calculate_statistics_def)

text \<open>
  Claim C2, as stated, fails: the report for the empty list has no \<open>total_packets\<close> entry,
  so its packet count is not the number zero.
\<close>

theorem empty_report_counterexample:
  "map_option total_packets (calculate_statistics []) \<noteq> Some 0"
  by (simp add: calculate_statistics_def)



end
